theory Spec2Isabelle
  imports Complex_Main
begin

section \<open>Geometry values\<close>

text \<open>
  trackmarks/core/spatial.py works on shapely geometries. Two variants occur in the module:
  \<open>geometry.Point\<close> (the centroid of an ellipse) and \<open>geometry.Polygon\<close> (the ellipse itself),
  a polygon being its exterior ring followed by its interior rings. Coordinates are Python
  floats, modelled as real numbers. The two float operations of the module itself, the sum and
  the quotient in the zone expression, are parameters of the model; the affine maps of the
  geometry library are taken exactly.
\<close>

type_synonym coord = "real \<times> real"

datatype geom = Point real real | Polygon "coord list" "coord list list"

text \<open>\<open>shapely.ops.transform(func, geom)\<close>: \<open>func\<close> is applied to every coordinate of the geometry.\<close>

fun transform :: "(coord \<Rightarrow> coord) \<Rightarrow> geom \<Rightarrow> geom" where
  "transform f (Point x y) = (case f (x, y) of (x', y') \<Rightarrow> Point x' y')"
| "transform f (Polygon shell holes) = Polygon (map f shell) (map (map f) holes)"

section \<open>Constants and numbers\<close>

definition DEFAULT_ELLIPSE_RESOLUTION :: int where
  "DEFAULT_ELLIPSE_RESOLUTION = 8"

definition DEFAULT_ELLIPSE_ORIENTATION :: real where
  "DEFAULT_ELLIPSE_ORIENTATION = 0"

definition DEFAULT_EPSG_CRS :: int where
  "DEFAULT_EPSG_CRS = 4326"

text \<open>Python's \<open>int(x)\<close> on a float: truncation toward zero.\<close>

definition py_int :: "real \<Rightarrow> int" where
  "py_int x = (if 0 \<le> x then \<lfloor>x\<rfloor> else - \<lfloor>- x\<rfloor>)"

section \<open>Errors\<close>

text \<open>
  The exceptions a call can end with: \<open>CRSError\<close> when the projection library cannot build a
  frame, \<open>TypeError\<close> when \<open>None\<close> is unpacked into two names, \<open>AttributeError\<close> when \<open>.to\<close> is
  looked up on a plain float, \<open>DimensionalityError\<close> when a quantity is not a length.
  \<open>InvalidParameterError\<close> is the error kind the specification names for rejected parameters;
  no statement of the source raises it.
\<close>

datatype error =
  TypeError | AttributeError | DimensionalityError | CRSError | InvalidParameterError

section \<open>Coordinate reference systems\<close>

text \<open>
  The comparison \<open>optimal_crs == self.input_crs\<close> of the source is the comparison of
  \<open>pyproj.CRS\<close> objects, which compares the frames the objects denote and not the calls that
  built them: the frame built from the UTM definition string of zone 16 equals the frame built
  from EPSG code 32616. A \<open>CRS\<close> object is therefore modelled by the frame it denotes: the
  geographic WGS84 frame, a northern UTM zone on WGS84, or another frame.
\<close>

datatype crs = WGS84_geographic | WGS84_utm_north int | Other_frame nat

section \<open>Library operations\<close>

text \<open>
  A \<open>pyproj.Transformer\<close> built by \<open>Transformer.from_crs(crs_from, crs_to, always_xy=...)\<close>.
\<close>

record transformer =
  crs_from :: crs
  crs_to :: crs
  always_xy :: bool

text \<open>
  The routines and tables of the libraries that are not closed formulas are parameters of the
  model: \<open>proj t\<close> is \<open>t.transform\<close> on one coordinate pair, \<open>buffer g d n\<close> is
  \<open>g.buffer(d, resolution=n)\<close>, \<open>geom_centroid g\<close> is the coordinate pair of \<open>g.centroid\<close>,
  \<open>float_add\<close> and \<open>float_div\<close> are the sum and the quotient of two Python floats (which
  round), and \<open>registry code\<close> is the frame that the EPSG registry holds for a code, if it
  holds one.
\<close>

record geo_lib =
  proj :: "transformer \<Rightarrow> coord \<Rightarrow> coord"
  buffer :: "geom \<Rightarrow> real \<Rightarrow> int \<Rightarrow> geom"
  geom_centroid :: "geom \<Rightarrow> coord"
  float_add :: "real \<Rightarrow> real \<Rightarrow> real"
  float_div :: "real \<Rightarrow> real \<Rightarrow> real"
  registry :: "int \<Rightarrow> crs option"

text \<open>
  \<open>shapely.affinity.scale\<close> and \<open>shapely.affinity.rotate\<close> are library code as well, but they
  are closed-form affine maps; they are written out after the library: both leave an empty
  geometry alone, take the centre of the bounding box as origin (the default
  \<open>origin='center'\<close>) and send \<open>(x, y)\<close> to \<open>(a*x + b*y + xoff, d*x + e*y + yoff)\<close>. \<open>rotate\<close>
  converts its angle from degrees and uses the matrix \<open>(cos, -sin, sin, cos)\<close>, after
  replacing a cosine or sine of magnitude below \<open>2.5e-16\<close> by zero.
\<close>

fun is_empty :: "geom \<Rightarrow> bool" where
  "is_empty (Point x y) = False"
| "is_empty (Polygon shell holes) = (shell = [])"

fun exterior_coords :: "geom \<Rightarrow> coord list" where
  "exterior_coords (Point x y) = [(x, y)]"
| "exterior_coords (Polygon shell holes) = shell"

definition bounds :: "geom \<Rightarrow> real \<times> real \<times> real \<times> real" where
  "bounds g =
     (let xs = map fst (exterior_coords g); ys = map snd (exterior_coords g)
      in (fold min xs (hd xs), fold min ys (hd ys), fold max xs (hd xs), fold max ys (hd ys)))"

definition bbox_center :: "geom \<Rightarrow> coord" where
  "bbox_center g =
     (case bounds g of (minx, miny, maxx, maxy) \<Rightarrow> ((maxx + minx) / 2, (maxy + miny) / 2))"

definition affine_transform :: "geom \<Rightarrow> real \<times> real \<times> real \<times> real \<times> real \<times> real \<Rightarrow> geom" where
  "affine_transform g matrix =
     (case matrix of (a, b, d, e, xoff, yoff) \<Rightarrow>
        transform (\<lambda>(x, y). (a * x + b * y + xoff, d * x + e * y + yoff)) g)"

definition scale_geom :: "geom \<Rightarrow> real \<Rightarrow> real \<Rightarrow> geom" where
  "scale_geom g xfact yfact =
     (if is_empty g then g
      else (case bbox_center g of (x0, y0) \<Rightarrow>
        affine_transform g (xfact, 0, 0, yfact, x0 - x0 * xfact, y0 - y0 * yfact)))"

definition rotate_geom :: "geom \<Rightarrow> real \<Rightarrow> geom" where
  "rotate_geom g angle =
     (if is_empty g then g
      else
        (let a = angle * pi / 180;
             cosp = (if \<bar>cos a\<bar> < 25 / 10 ^ 17 then 0 else cos a);
             sinp = (if \<bar>sin a\<bar> < 25 / 10 ^ 17 then 0 else sin a)
         in (case bbox_center g of (x0, y0) \<Rightarrow>
           affine_transform g
             (cosp, - sinp, sinp, cosp,
              x0 - x0 * cosp + y0 * sinp, y0 - x0 * sinp - y0 * cosp))))"

section \<open>Building frames\<close>

text \<open>
  \<open>pyproj.CRS.from_epsg(code)\<close>. Three facts about the registry are fixed: 4326 is the
  geographic WGS84 frame, 32601 to 32660 are the northern UTM zones 1 to 60 on WGS84, and 54032
  is not an EPSG code (it is the number of World Azimuthal Equidistant in the ESRI authority),
  so the call raises \<open>CRSError\<close>. Every other code is looked up in the registry parameter.
\<close>

definition CRS_from_epsg :: "geo_lib \<Rightarrow> int \<Rightarrow> error + crs" where
  "CRS_from_epsg lib code =
     (if code = 4326 then Inr WGS84_geographic
      else if 32601 \<le> code \<and> code \<le> 32660 then Inr (WGS84_utm_north (code - 32600))
      else if code = 54032 then Inl CRSError
      else (case registry lib code of None \<Rightarrow> Inl CRSError | Some frame \<Rightarrow> Inr frame))"

text \<open>The zone expression \<open>int((lon + 180) / 6) + 1\<close> of \<open>_determine_optimal_crs\<close>.\<close>

definition utm_zone :: "geo_lib \<Rightarrow> real \<Rightarrow> int" where
  "utm_zone lib lon = py_int (float_div lib (float_add lib lon 180) 6) + 1"

text \<open>
  \<open>CRS.from_string(f"+proj=utm +zone={zone} +ellps=WGS84 +datum=WGS84 +units=m +no_defs")\<close>.
  The definition has no \<open>+south\<close>, so it denotes the northern zone; the projection library
  builds zones 1 to 60 and raises \<open>CRSError\<close> for any other zone number.
\<close>

definition utm_crs :: "int \<Rightarrow> error + crs" where
  "utm_crs zone =
     (if 1 \<le> zone \<and> zone \<le> 60 then Inr (WGS84_utm_north zone) else Inl CRSError)"

text \<open>
  \<open>OptimalReprojector._determine_optimal_crs(point_4326)\<close>: \<open>lon = point_4326.x\<close>,
  \<open>lat = point_4326.y\<close>. The method does not read \<open>self\<close>.
\<close>

definition determine_optimal_crs :: "geo_lib \<Rightarrow> coord \<Rightarrow> error + crs" where
  "determine_optimal_crs lib point_4326 =
     (let lon = fst point_4326; lat = snd point_4326
      in if - 80 < lat \<and> lat < 84 then utm_crs (utm_zone lib lon)
         else CRS_from_epsg lib 54032)"

section \<open>Distances\<close>

text \<open>
  Modelled from the spec: the unit registry \<open>unit_reg\<close> is created in
  trackmarks/core/__init__.py, which is not among the source files, and its units are those
  of the units library. By section 6 of the specification every unit convertible to meters is
  accepted, and 1 nautical mile is exactly 1852 meters. A unit is a length of a given size in
  meters, or a unit of another dimension.
\<close>

datatype length_unit = Length real | Other_dimension

definition meter :: length_unit where
  "meter = Length 1"

text \<open>
  Modelled from the spec: the size of the registry's nautical mile, which no source file
  states, is 1852 meters exactly (section 6).
\<close>

definition nautical_mile :: length_unit where
  "nautical_mile = Length 1852"

text \<open>
  The fields \<open>semi_major\<close> and \<open>semi_minor\<close> of an \<open>Ellipse\<close> are annotated \<open>float\<close>, the
  parameters of \<open>_generate_utm_ellipse\<close> that receive them are annotated \<open>Distance\<close> (a
  quantity); nothing checks either annotation, so a value is one or the other.
\<close>

datatype axis_value = Float real | Quantity real length_unit

text \<open>\<open>value.to(unit_reg.meter).magnitude\<close>\<close>

fun to_meter_magnitude :: "axis_value \<Rightarrow> error + real" where
  "to_meter_magnitude (Float x) = Inl AttributeError"
| "to_meter_magnitude (Quantity m (Length k)) = Inr (m * k)"
| "to_meter_magnitude (Quantity m Other_dimension) = Inl DimensionalityError"

section \<open>OptimalReprojector\<close>

record OptimalReprojector =
  input_crs :: crs

text \<open>
  \<open>OptimalReprojector.__init__(input_epsg)\<close>: \<open>self.input_crs = CRS.from_epsg(input_epsg)\<close>,
  so the constructor raises when the code is unknown.
\<close>

definition OptimalReprojector_init :: "geo_lib \<Rightarrow> int \<Rightarrow> error + OptimalReprojector" where
  "OptimalReprojector_init lib input_epsg =
     (case CRS_from_epsg lib input_epsg of
        Inl e \<Rightarrow> Inl e
      | Inr frame \<Rightarrow> Inr \<lparr>input_crs = frame\<rparr>)"

text \<open>
  The point handed to \<open>_determine_optimal_crs\<close>:
  \<open>geom if isinstance(geom, geometry.Point) else geom.centroid\<close>.
\<close>

definition anchor_point :: "geo_lib \<Rightarrow> geom \<Rightarrow> coord" where
  "anchor_point lib g =
     (case g of Point x y \<Rightarrow> (x, y) | Polygon shell holes \<Rightarrow> geom_centroid lib g)"

text \<open>
  \<open>OptimalReprojector.get_optimal_transformers(geom)\<close>. The result \<open>Inr None\<close> is the returned
  value \<open>None\<close>; an exception of \<open>_determine_optimal_crs\<close> ends the call.
\<close>

definition get_optimal_transformers ::
  "geo_lib \<Rightarrow> OptimalReprojector \<Rightarrow> geom \<Rightarrow> error + (transformer \<times> transformer) option" where
  "get_optimal_transformers lib self g =
     (case determine_optimal_crs lib (anchor_point lib g) of
        Inl e \<Rightarrow> Inl e
      | Inr optimal_crs \<Rightarrow>
          (if optimal_crs = input_crs self then Inr None
           else
             (let to_transformer =
                    \<lparr>crs_from = input_crs self, crs_to = optimal_crs, always_xy = True\<rparr>;
                  return_transformer =
                    \<lparr>crs_from = optimal_crs, crs_to = input_crs self, always_xy = True\<rparr>
              in Inr (Some (to_transformer, return_transformer)))))"

text \<open>
  \<open>OptimalReprojector.apply_geometry(geom, func, *args, **kwargs)\<close>. The argument \<open>func\<close> of
  the model is the source's \<open>func\<close> with \<open>*args, **kwargs\<close> already supplied. The first
  statement unpacks the result of \<open>get_optimal_transformers\<close> into two names, which raises
  \<open>TypeError\<close> when that result is \<open>None\<close>.
\<close>

definition apply_geometry ::
  "geo_lib \<Rightarrow> OptimalReprojector \<Rightarrow> geom \<Rightarrow> (geom \<Rightarrow> error + geom) \<Rightarrow> error + geom" where
  "apply_geometry lib self g func =
     (case get_optimal_transformers lib self g of
        Inl e \<Rightarrow> Inl e
      | Inr None \<Rightarrow> Inl TypeError
      | Inr (Some (to_transformer, return_transformer)) \<Rightarrow>
          (case func (transform (proj lib to_transformer) g) of
             Inl e \<Rightarrow> Inl e
           | Inr transformed_geom \<Rightarrow>
               Inr (transform (proj lib return_transformer) transformed_geom)))"

section \<open>Ellipse\<close>

text \<open>\<open>Ellipse._generate_utm_ellipse(centroid, semi_major, semi_minor, orientation, resolution)\<close>\<close>

definition generate_utm_ellipse ::
  "geo_lib \<Rightarrow> geom \<Rightarrow> axis_value \<Rightarrow> axis_value \<Rightarrow> real \<Rightarrow> int \<Rightarrow> error + geom" where
  "generate_utm_ellipse lib centroid semi_major semi_minor orientation resolution =
     (case to_meter_magnitude semi_major of
        Inl e \<Rightarrow> Inl e
      | Inr major_meters \<Rightarrow>
          (case to_meter_magnitude semi_minor of
             Inl e \<Rightarrow> Inl e
           | Inr minor_meters \<Rightarrow>
               (let ellipse = scale_geom (buffer lib centroid 1 resolution)
                                major_meters minor_meters
                in Inr (if orientation = DEFAULT_ELLIPSE_ORIENTATION then ellipse
                        else rotate_geom ellipse orientation))))"

text \<open>
  The same construction with the rotation step left out: the body of
  \<open>_generate_utm_ellipse\<close> up to the scaled buffer, which is returned as it is.
\<close>

definition generate_utm_ellipse_unrotated ::
  "geo_lib \<Rightarrow> geom \<Rightarrow> axis_value \<Rightarrow> axis_value \<Rightarrow> int \<Rightarrow> error + geom" where
  "generate_utm_ellipse_unrotated lib centroid semi_major semi_minor resolution =
     (case to_meter_magnitude semi_major of
        Inl e \<Rightarrow> Inl e
      | Inr major_meters \<Rightarrow>
          (case to_meter_magnitude semi_minor of
             Inl e \<Rightarrow> Inl e
           | Inr minor_meters \<Rightarrow>
               Inr (scale_geom (buffer lib centroid 1 resolution) major_meters minor_meters)))"

text \<open>
  The dataclass \<open>Ellipse\<close>. The private field \<open>_ellipse\<close> holds \<open>None\<close> or a reference to a
  polygon object. Polygon objects live in a store, a list indexed by reference, so that two
  references denote the identical object exactly when they are equal.
\<close>

record Ellipse =
  centroid :: geom
  semi_major :: axis_value
  semi_minor :: axis_value
  orientation :: real
  priv_ellipse :: "nat option"

type_synonym store = "geom list"

text \<open>
  \<open>Ellipse.generate_ellipse(resolution, cache)\<close>. Its first two statements, which bind the
  local name \<open>ellipse\<close>, are \<open>construct_ellipse\<close>: the reprojector is built for
  \<open>DEFAULT_EPSG_CRS\<close> and \<open>apply_geometry\<close> is called on the centroid with
  \<open>_generate_utm_ellipse\<close> and the fields of the ellipse as keyword arguments. The geometry
  that \<open>apply_geometry\<close> returns is a new object; it is appended to the store and its
  reference is the result. An exception leaves store and ellipse as they were.
\<close>

definition construct_ellipse :: "geo_lib \<Rightarrow> Ellipse \<Rightarrow> int \<Rightarrow> error + geom" where
  "construct_ellipse lib self resolution =
     (case OptimalReprojector_init lib DEFAULT_EPSG_CRS of
        Inl e \<Rightarrow> Inl e
      | Inr reprojector \<Rightarrow>
          apply_geometry lib reprojector (centroid self)
            (\<lambda>g. generate_utm_ellipse lib g (semi_major self) (semi_minor self)
                    (orientation self) resolution))"

definition generate_ellipse ::
  "geo_lib \<Rightarrow> int \<Rightarrow> bool \<Rightarrow> store \<times> Ellipse \<Rightarrow> (error + nat) \<times> (store \<times> Ellipse)" where
  "generate_ellipse lib resolution cache s =
     (case s of (objs, self) \<Rightarrow>
        (case construct_ellipse lib self resolution of
           Inl e \<Rightarrow> (Inl e, (objs, self))
         | Inr ellipse \<Rightarrow>
             (Inr (length objs),
              (objs @ [ellipse],
               if cache then self\<lparr>priv_ellipse := Some (length objs)\<rparr> else self))))"

text \<open>
  The property \<open>Ellipse.ellipse\<close>: it generates with the default resolution and
  \<open>cache=True\<close> when \<open>_ellipse\<close> is \<open>None\<close>, and returns the value of \<open>_ellipse\<close>.
\<close>

definition ellipse ::
  "geo_lib \<Rightarrow> store \<times> Ellipse \<Rightarrow> (error + nat option) \<times> (store \<times> Ellipse)" where
  "ellipse lib s =
     (if priv_ellipse (snd s) = None
      then (case generate_ellipse lib DEFAULT_ELLIPSE_RESOLUTION True s of
              (Inl e, s') \<Rightarrow> (Inl e, s')
            | (Inr r, s') \<Rightarrow> (Inr (priv_ellipse (snd s')), s'))
      else (Inr (priv_ellipse (snd s)), s))"

text \<open>The object a reference denotes in a store, if it denotes one.\<close>

definition deref :: "store \<Rightarrow> nat \<Rightarrow> geom option" where
  "deref objs r = (if r < length objs then Some (objs ! r) else None)"

text \<open>
  A store and an ellipse fit together when the reference in \<open>_ellipse\<close>, if there is one,
  denotes an object of the store.
\<close>

definition cache_valid :: "store \<times> Ellipse \<Rightarrow> bool" where
  "cache_valid s =
     (case priv_ellipse (snd s) of None \<Rightarrow> True | Some r \<Rightarrow> r < length (fst s))"

text \<open>
  What a caller of the property \<open>ellipse\<close> gets to see: the exception, or the polygon that
  the returned reference denotes in the store after the call.
\<close>

definition returned_polygon ::
  "(error + nat option) \<times> (store \<times> Ellipse) \<Rightarrow> error + geom option" where
  "returned_polygon out =
     (case out of
        (Inl e, s) \<Rightarrow> Inl e
      | (Inr None, s) \<Rightarrow> Inr None
      | (Inr (Some r), s) \<Rightarrow> Inr (deref (fst s) r))"

section \<open>The rotation of the specification\<close>

text \<open>
  The specification words the rotation step as a rotation by \<open>orientation\<close> degrees about the
  centroid, clockwise. Written out for a plane with x to the right and y upwards, a clockwise
  rotation by \<open>angle\<close> degrees about \<open>origin\<close> is the following map.
\<close>

definition rotate_clockwise :: "coord \<Rightarrow> real \<Rightarrow> geom \<Rightarrow> geom" where
  "rotate_clockwise origin angle g =
     (case origin of (x0, y0) \<Rightarrow>
        (let a = angle * pi / 180
         in transform (\<lambda>(x, y). (x0 + (x - x0) * cos a + (y - y0) * sin a,
                                  y0 - (x - x0) * sin a + (y - y0) * cos a)) g))"

text \<open>
  The rounding guard of \<open>rotate\<close> leaves a cosine or sine alone when it is zero or at least
  \<open>2.5e-16\<close> in magnitude.
\<close>

definition unguarded :: "real \<Rightarrow> bool" where
  "unguarded angle =
     ((cos (angle * pi / 180) = 0 \<or> 25 / 10 ^ 17 \<le> \<bar>cos (angle * pi / 180)\<bar>)
      \<and> (sin (angle * pi / 180) = 0 \<or> 25 / 10 ^ 17 \<le> \<bar>sin (angle * pi / 180)\<bar>))"

section \<open>A small library instance for running the model\<close>

text \<open>
  To run the model on examples the library parameters need values. In this instance one
  degree of the geographic frame is a thousand units of every other frame, the buffer of a
  point is the ring with one segment per quadrant (the ring starts east of the point and
  runs clockwise), the centroid of a polygon is the centre of its bounding box, sums and
  quotients are exact, and the registry holds no further code.
\<close>

definition example_lib :: geo_lib where
  "example_lib =
     \<lparr>proj = (\<lambda>t (x, y). case crs_from t of
                 WGS84_geographic \<Rightarrow> (x * 1000, y * 1000)
               | WGS84_utm_north zone \<Rightarrow> (x / 1000, y / 1000)
               | Other_frame k \<Rightarrow> (x, y)),
      buffer = (\<lambda>g d n. case g of
                 Point x y \<Rightarrow> Polygon [(x + d, y), (x, y - d), (x - d, y), (x, y + d), (x + d, y)] []
               | Polygon shell holes \<Rightarrow> g),
      geom_centroid = bbox_center,
      float_add = (\<lambda>a b. a + b),
      float_div = (\<lambda>a b. a / b),
      registry = (\<lambda>code. None)\<rparr>"

text \<open>
  The ellipse of the test suite (py_tests/trackmarks/core/spatial.py, \<open>setUp\<close>), newly
  constructed: \<open>_ellipse\<close> is \<open>None\<close>.
\<close>

definition test_ellipse :: Ellipse where
  "test_ellipse =
     \<lparr>centroid = Point (- 8439 / 100) (3375 / 100),
      semi_major = Quantity 2 nautical_mile,
      semi_minor = Quantity 1 nautical_mile,
      orientation = 10,
      priv_ellipse = None\<rparr>"

section \<open>The frame chosen for a point\<close>

lemma CRS_from_epsg_54032: "CRS_from_epsg lib 54032 = Inl CRSError"
  by (simp add: CRS_from_epsg_def)

lemma CRS_from_epsg_default: "CRS_from_epsg lib DEFAULT_EPSG_CRS = Inr WGS84_geographic"
  by (simp add: CRS_from_epsg_def DEFAULT_EPSG_CRS_def)

lemma determine_optimal_crs_utm:
  "- 80 < lat \<Longrightarrow> lat < 84 \<Longrightarrow>
   determine_optimal_crs lib (lon, lat) = utm_crs (utm_zone lib lon)"
  by (simp add: determine_optimal_crs_def)

lemma determine_optimal_crs_frames:
  "determine_optimal_crs lib p = Inr frame \<Longrightarrow>
   \<exists>zone. 1 \<le> zone \<and> zone \<le> 60 \<and> frame = WGS84_utm_north zone"
  by (auto simp add: determine_optimal_crs_def Let_def utm_crs_def CRS_from_epsg_54032
        split: if_splits)

lemma utm_zone_atlanta: "utm_zone example_lib (- (8439 / 100)) = 16"
  by (simp add: utm_zone_def py_int_def example_lib_def)

text \<open>
  C2. For a point with latitude at most -80 or at least 84 the resolver is to select the
  fixed World Azimuthal Equidistant frame, and the comment in the source says so. The source
  asks the EPSG registry for code 54032, which is not an EPSG code: for every such point,
  whatever its longitude, the call ends with \<open>CRSError\<close> and no frame is selected.
\<close>

theorem determine_optimal_crs_polar:
  "lat \<le> - 80 \<or> 84 \<le> lat \<Longrightarrow> determine_optimal_crs lib (lon, lat) = Inl CRSError"
  by (auto simp add: determine_optimal_crs_def CRS_from_epsg_54032)

theorem determine_optimal_crs_polar_witness:
  "determine_optimal_crs example_lib (0, 85) = Inl CRSError
   \<and> determine_optimal_crs example_lib (33, - 80) = Inl CRSError"
  using determine_optimal_crs_polar [of 85 example_lib 0]
        determine_optimal_crs_polar [of "- 80" example_lib 33]
  by simp

section \<open>Transformer pairs\<close>

lemma get_optimal_transformers_resolved:
  "determine_optimal_crs lib (anchor_point lib g) = Inr optimal_crs \<Longrightarrow>
   get_optimal_transformers lib self g =
     Inr (if optimal_crs = input_crs self then None
          else Some (\<lparr>crs_from = input_crs self, crs_to = optimal_crs, always_xy = True\<rparr>,
                     \<lparr>crs_from = optimal_crs, crs_to = input_crs self, always_xy = True\<rparr>))"
  by (simp add: get_optimal_transformers_def Let_def)

lemma get_optimal_transformers_raises:
  "determine_optimal_crs lib (anchor_point lib g) = Inl e \<Longrightarrow>
   get_optimal_transformers lib self g = Inl e"
  by (simp add: get_optimal_transformers_def)

lemma anchor_point_cases:
  "anchor_point lib (Point x y) = (x, y)
   \<and> anchor_point lib (Polygon shell holes) = geom_centroid lib (Polygon shell holes)"
  by (simp add: anchor_point_def)

text \<open>
  C8. The builder is to return either no pair or a pair for every geometry. For a geometry
  whose anchor has latitude at most -80 or at least 84, be it a point or a polygon with such
  a centroid, the resolver raises \<open>CRSError\<close> (the defect of C2) and so does the builder: it
  returns neither.
\<close>

theorem get_optimal_transformers_polar:
  "get_optimal_transformers lib \<lparr>input_crs = WGS84_geographic\<rparr> (Point 0 85) = Inl CRSError
   \<and> (84 \<le> snd (geom_centroid lib (Polygon shell holes)) \<longrightarrow>
        get_optimal_transformers lib self (Polygon shell holes) = Inl CRSError)"
proof (intro conjI impI)
  have "determine_optimal_crs lib (anchor_point lib (Point 0 85)) = Inl CRSError"
    by (simp add: anchor_point_def determine_optimal_crs_def CRS_from_epsg_54032)
  then show "get_optimal_transformers lib \<lparr>input_crs = WGS84_geographic\<rparr> (Point 0 85) =
      Inl CRSError"
    by (rule get_optimal_transformers_raises)
next
  assume "84 \<le> snd (geom_centroid lib (Polygon shell holes))"
  then have "determine_optimal_crs lib (anchor_point lib (Polygon shell holes)) = Inl CRSError"
    by (simp add: anchor_point_def determine_optimal_crs_def Let_def CRS_from_epsg_54032)
  then show "get_optimal_transformers lib self (Polygon shell holes) = Inl CRSError"
    by (rule get_optimal_transformers_raises)
qed

theorem get_optimal_transformers_polar_witness:
  "get_optimal_transformers example_lib \<lparr>input_crs = WGS84_geographic\<rparr>
     (Polygon [(0, 84), (2, 84), (2, 86), (0, 86), (0, 84)] []) = Inl CRSError"
  using get_optimal_transformers_polar [of example_lib
          "[(0, 84), (2, 84), (2, 86), (0, 86), (0, 84)]" "[]"
          "\<lparr>input_crs = WGS84_geographic\<rparr>"]
  by (simp add: example_lib_def bbox_center_def bounds_def)

section \<open>The reprojection pipeline\<close>

lemma OptimalReprojector_init_32616:
  "OptimalReprojector_init lib 32616 = Inr \<lparr>input_crs = WGS84_utm_north 16\<rparr>"
  by (simp add: OptimalReprojector_init_def CRS_from_epsg_def)

lemma get_optimal_transformers_atlanta:
  "get_optimal_transformers example_lib \<lparr>input_crs = WGS84_utm_north 16\<rparr>
     (Point (- (8439 / 100)) (135 / 4)) = Inr None"
  by (simp add: get_optimal_transformers_def anchor_point_def determine_optimal_crs_def
        utm_zone_atlanta utm_crs_def)

text \<open>
  C1. When the resolved optimal frame equals the input frame, \<open>get_optimal_transformers\<close>
  returns \<open>None\<close>, and the specification has \<open>apply_geometry\<close> apply the operation to the
  geometry directly. The source unpacks that result into two names before anything else: for
  every such geometry the call ends with \<open>TypeError\<close>, whatever the operation is, and the
  operation is never applied. The reprojector built from EPSG code 32616 and the point
  (-84.39, 33.75), which lies in UTM zone 16, are such a case.
\<close>

theorem apply_geometry_equal_frames:
  "get_optimal_transformers lib self g = Inr None \<Longrightarrow>
   apply_geometry lib self g func = Inl TypeError"
  by (simp add: apply_geometry_def)

theorem apply_geometry_equal_frames_witness:
  "OptimalReprojector_init example_lib 32616 = Inr \<lparr>input_crs = WGS84_utm_north 16\<rparr>
   \<and> get_optimal_transformers example_lib \<lparr>input_crs = WGS84_utm_north 16\<rparr>
        (Point (- 8439 / 100) (3375 / 100)) = Inr None
   \<and> apply_geometry example_lib \<lparr>input_crs = WGS84_utm_north 16\<rparr>
        (Point (- 8439 / 100) (3375 / 100)) Inr = Inl TypeError"
  using apply_geometry_equal_frames [of example_lib "\<lparr>input_crs = WGS84_utm_north 16\<rparr>"
          "Point (- 8439 / 100) (3375 / 100)" Inr]
        get_optimal_transformers_atlanta OptimalReprojector_init_32616 [of example_lib]
  by simp

section \<open>Ellipse construction\<close>

text \<open>
  C9. With orientation 0 the construction returns the very polygon that the construction
  without its rotation step returns, in the local frame and after the pipeline has mapped it
  back.
\<close>

theorem orientation_zero_skips_rotation:
  "generate_utm_ellipse lib c a b 0 n = generate_utm_ellipse_unrotated lib c a b n
   \<and> apply_geometry lib self g (\<lambda>c. generate_utm_ellipse lib c a b 0 n) =
       apply_geometry lib self g (\<lambda>c. generate_utm_ellipse_unrotated lib c a b n)"
  by (simp add: generate_utm_ellipse_def generate_utm_ellipse_unrotated_def
        DEFAULT_ELLIPSE_ORIENTATION_def split: sum.splits)

lemma affine_scale_fun:
  "(\<lambda>(x, y). (xfact * x + (x0 - x0 * xfact), yfact * y + (y0 - y0 * yfact))) =
   (\<lambda>(x::real, y::real). (x0 + xfact * (x - x0), y0 + yfact * (y - y0)))"
  by (simp add: fun_eq_iff algebra_simps)

lemma scale_geom_centred:
  "\<not> is_empty g \<Longrightarrow>
   scale_geom g xfact yfact =
     transform (\<lambda>(x, y). (fst (bbox_center g) + xfact * (x - fst (bbox_center g)),
                          snd (bbox_center g) + yfact * (y - snd (bbox_center g)))) g"
  by (simp add: scale_geom_def affine_transform_def affine_scale_fun split: prod.splits)

lemma example_buffer_origin:
  "buffer example_lib (Point 0 0) 1 n = Polygon [(1, 0), (0, - 1), (- 1, 0), (0, 1), (1, 0)] []"
  by (simp add: example_lib_def)

lemma bbox_center_diamond:
  "bbox_center (Polygon [(1, 0), (0, - 1), (- 1, 0), (0, 1), (1, 0)] []) = (0, 0)"
  by (simp add: bbox_center_def bounds_def)

lemma scale_diamond:
  "scale_geom (Polygon [(1, 0), (0, - 1), (- 1, 0), (0, 1), (1, 0)] []) xf yf =
     Polygon [(xf, 0), (0, - yf), (- xf, 0), (0, yf), (xf, 0)] []"
  by (simp add: scale_geom_def affine_transform_def bbox_center_diamond)

text \<open>
  C7. The operation run in the local frame buffers the projected centroid by distance 1 with
  the given resolution and scales the buffer with x factor \<open>semi_major\<close> in meters and y factor
  \<open>semi_minor\<close> in meters (rotating the outcome afterwards when the orientation is not 0); a
  magnitude in nautical miles is multiplied by exactly 1852. Scaling a non-empty geometry
  stretches the offsets from the centre of its bounding box by the two factors.
\<close>

theorem generate_utm_ellipse_scaled_buffer:
  "to_meter_magnitude (Quantity m nautical_mile) = Inr (m * 1852)
   \<and> (to_meter_magnitude a = Inr major_meters \<and> to_meter_magnitude b = Inr minor_meters \<longrightarrow>
        generate_utm_ellipse lib c a b angle n =
          Inr (if angle = 0 then scale_geom (buffer lib c 1 n) major_meters minor_meters
               else rotate_geom (scale_geom (buffer lib c 1 n) major_meters minor_meters) angle))
   \<and> (\<not> is_empty g \<longrightarrow>
        scale_geom g xfact yfact =
          transform (\<lambda>(x, y). (fst (bbox_center g) + xfact * (x - fst (bbox_center g)),
                               snd (bbox_center g) + yfact * (y - snd (bbox_center g)))) g)"
  by (simp add: nautical_mile_def generate_utm_ellipse_def DEFAULT_ELLIPSE_ORIENTATION_def
        scale_geom_centred)

theorem generate_utm_ellipse_scaled_buffer_witness:
  "generate_utm_ellipse example_lib (Point 0 0) (Quantity 2 nautical_mile)
     (Quantity 1 nautical_mile) 0 8 =
     Inr (Polygon [(3704, 0), (0, - 1852), (- 3704, 0), (0, 1852), (3704, 0)] [])"
  using generate_utm_ellipse_scaled_buffer [of 2 "Quantity 2 nautical_mile" 3704
          "Quantity 1 nautical_mile" 1852 example_lib "Point 0 0" 0 8
          "Polygon [(1, 0), (0, - 1), (- 1, 0), (0, 1), (1, 0)] []" 3704 1852]
  by (simp add: nautical_mile_def example_buffer_origin scale_diamond)

section \<open>The direction of the rotation\<close>

lemma sqrt3_guard: "\<not> \<bar>sqrt 3 / 2\<bar> < 25 / 10 ^ 17"
proof -
  have "1 \<le> sqrt 3" by simp
  then have "1 / 2 \<le> \<bar>sqrt 3 / 2\<bar>" by simp
  moreover have "(25::real) / 10 ^ 17 < 1 / 2" by simp
  ultimately show ?thesis by linarith
qed

lemma rotate_diamond_30:
  "rotate_geom (Polygon [(2, 0), (0, - 1), (- 2, 0), (0, 1), (2, 0)] []) 30 =
     Polygon [(sqrt 3, 1), (1 / 2, - (sqrt 3 / 2)), (- sqrt 3, - 1), (- (1 / 2), sqrt 3 / 2),
              (sqrt 3, 1)] []"
  using sqrt3_guard
  by (simp add: rotate_geom_def affine_transform_def bbox_center_def bounds_def Let_def
        cos_30 sin_30)

lemma rotate_clockwise_diamond_30:
  "rotate_clockwise (0, 0) 30 (Polygon [(2, 0), (0, - 1), (- 2, 0), (0, 1), (2, 0)] []) =
     Polygon [(sqrt 3, - 1), (- (1 / 2), - (sqrt 3 / 2)), (- sqrt 3, 1), (1 / 2, sqrt 3 / 2),
              (sqrt 3, - 1)] []"
  by (simp add: rotate_clockwise_def Let_def cos_30 sin_30)

text \<open>
  C6, as worded. The construction with orientation 30 on the four-vertex ring around the
  origin, semi-axes 2 m and 1 m: the vertex east of the centre moves to \<open>(sqrt 3, 1)\<close>, north of
  the x axis, whereas the clockwise rotation by 30 degrees about the centroid moves it to
  \<open>(sqrt 3, -1)\<close>.
\<close>

theorem rotation_clockwise_counterexample:
  "generate_utm_ellipse example_lib (Point 0 0) (Quantity 2 meter) (Quantity 1 meter) 30 1 =
     Inr (Polygon [(sqrt 3, 1), (1 / 2, - (sqrt 3 / 2)), (- sqrt 3, - 1),
                   (- (1 / 2), sqrt 3 / 2), (sqrt 3, 1)] [])
   \<and> generate_utm_ellipse example_lib (Point 0 0) (Quantity 2 meter) (Quantity 1 meter) 30 1 \<noteq>
     Inr (rotate_clockwise (0, 0) 30
            (scale_geom (buffer example_lib (Point 0 0) 1 1) 2 1))"
  by (simp add: generate_utm_ellipse_def meter_def DEFAULT_ELLIPSE_ORIENTATION_def
        example_buffer_origin scale_diamond rotate_diamond_30 rotate_clockwise_diamond_30)

lemma affine_rotate_fun:
  "(\<lambda>(x, y). (c * x + - s * y + (x0 - x0 * c + y0 * s), s * x + c * y + (y0 - x0 * s - y0 * c))) =
   (\<lambda>(x::real, y::real). (x0 + (x - x0) * c - (y - y0) * s, y0 + (x - x0) * s + (y - y0) * c))"
  by (simp add: fun_eq_iff algebra_simps)

lemma rotate_geom_unguarded:
  assumes "\<not> is_empty g" and "unguarded angle"
  shows "rotate_geom g angle = rotate_clockwise (bbox_center g) (- angle) g"
proof -
  let ?a = "angle * pi / 180"
  have c: "(if \<bar>cos ?a\<bar> < 25 / 10 ^ 17 then 0 else cos ?a) = cos ?a"
    using assms(2) by (auto simp add: unguarded_def)
  have s: "(if \<bar>sin ?a\<bar> < 25 / 10 ^ 17 then 0 else sin ?a) = sin ?a"
    using assms(2) by (auto simp add: unguarded_def)
  obtain x0 y0 where o: "bbox_center g = (x0, y0)" by (cases "bbox_center g")
  have "rotate_geom g angle =
          transform (\<lambda>(x, y). (cos ?a * x + - sin ?a * y + (x0 - x0 * cos ?a + y0 * sin ?a),
                               sin ?a * x + cos ?a * y + (y0 - x0 * sin ?a - y0 * cos ?a))) g"
    using assms(1) by (simp only: rotate_geom_def Let_def c s o affine_transform_def
          prod.case if_False)
  also have "\<dots> = transform (\<lambda>(x, y). (x0 + (x - x0) * cos ?a - (y - y0) * sin ?a,
                                      y0 + (x - x0) * sin ?a + (y - y0) * cos ?a)) g"
    by (simp only: affine_rotate_fun)
  also have "\<dots> = rotate_clockwise (bbox_center g) (- angle) g"
    by (simp add: rotate_clockwise_def o Let_def)
  finally show ?thesis .
qed

text \<open>
  C6, amended. For every nonzero orientation the construction hands the scaled polygon and
  the orientation, unchanged, to the library rotation. That rotation turns about the centre
  of the polygon's bounding box and counts positive angles counter-clockwise: it is the
  clockwise rotation by the negated angle (for angles the rounding guard leaves alone).
\<close>

theorem generate_utm_ellipse_rotation:
  "(angle \<noteq> 0 \<and> to_meter_magnitude a = Inr major_meters
      \<and> to_meter_magnitude b = Inr minor_meters \<longrightarrow>
        generate_utm_ellipse lib c a b angle n =
          Inr (rotate_geom (scale_geom (buffer lib c 1 n) major_meters minor_meters) angle))
   \<and> (\<not> is_empty g \<and> unguarded angle \<longrightarrow>
        rotate_geom g angle = rotate_clockwise (bbox_center g) (- angle) g)"
  by (simp add: generate_utm_ellipse_def DEFAULT_ELLIPSE_ORIENTATION_def rotate_geom_unguarded)

lemma unguarded_30: "unguarded 30"
  using sqrt3_guard by (simp add: unguarded_def cos_30 sin_30)

theorem generate_utm_ellipse_rotation_witness:
  "generate_utm_ellipse example_lib (Point 0 0) (Quantity 2 meter) (Quantity 1 meter) 30 1 =
     Inr (rotate_geom (Polygon [(2, 0), (0, - 1), (- 2, 0), (0, 1), (2, 0)] []) 30)
   \<and> rotate_geom (Polygon [(2, 0), (0, - 1), (- 2, 0), (0, 1), (2, 0)] []) 30 =
       rotate_clockwise (0, 0) (- 30) (Polygon [(2, 0), (0, - 1), (- 2, 0), (0, 1), (2, 0)] [])"
  using generate_utm_ellipse_rotation [of 30 "Quantity 2 meter" 2 "Quantity 1 meter" 1
          example_lib "Point 0 0" 1 "Polygon [(2, 0), (0, - 1), (- 2, 0), (0, 1), (2, 0)] []"]
        unguarded_30
  by (simp add: meter_def example_buffer_origin scale_diamond bbox_center_def bounds_def)

section \<open>Parameters are not validated\<close>

lemma OptimalReprojector_init_default:
  "OptimalReprojector_init lib DEFAULT_EPSG_CRS = Inr \<lparr>input_crs = WGS84_geographic\<rparr>"
  by (simp add: OptimalReprojector_init_def CRS_from_epsg_default)

lemma determine_optimal_crs_error:
  "determine_optimal_crs lib p = Inl err \<Longrightarrow> err = CRSError"
  by (auto simp add: determine_optimal_crs_def Let_def utm_crs_def CRS_from_epsg_54032
        split: if_splits)

lemma get_optimal_transformers_default:
  assumes "determine_optimal_crs lib (anchor_point lib g) = Inr optimal_crs"
  shows "get_optimal_transformers lib \<lparr>input_crs = WGS84_geographic\<rparr> g =
     Inr (Some (\<lparr>crs_from = WGS84_geographic, crs_to = optimal_crs, always_xy = True\<rparr>,
                \<lparr>crs_from = optimal_crs, crs_to = WGS84_geographic, always_xy = True\<rparr>))"
proof -
  from determine_optimal_crs_frames [OF assms] have "optimal_crs \<noteq> WGS84_geographic" by auto
  then show ?thesis using assms by (simp add: get_optimal_transformers_resolved)
qed

lemma to_meter_magnitude_error:
  "to_meter_magnitude a = Inl err \<Longrightarrow> err = AttributeError \<or> err = DimensionalityError"
  by (cases a rule: to_meter_magnitude.cases) auto

lemma generate_utm_ellipse_error:
  "generate_utm_ellipse lib c a b angle n = Inl err \<Longrightarrow>
   err = AttributeError \<or> err = DimensionalityError"
  by (auto simp add: generate_utm_ellipse_def Let_def split: sum.splits
        dest: to_meter_magnitude_error)

lemma construct_ellipse_error:
  assumes "construct_ellipse lib e n = Inl err"
  shows "err = AttributeError \<or> err = DimensionalityError \<or> err = CRSError"
proof (cases "determine_optimal_crs lib (anchor_point lib (centroid e))")
  case (Inl x)
  then have "x = CRSError" by (rule determine_optimal_crs_error)
  with Inl assms show ?thesis
    by (simp add: construct_ellipse_def OptimalReprojector_init_default apply_geometry_def
        get_optimal_transformers_raises)
next
  case (Inr optimal_crs)
  with assms show ?thesis
    by (auto simp add: construct_ellipse_def OptimalReprojector_init_default apply_geometry_def
        get_optimal_transformers_default split: sum.splits dest: generate_utm_ellipse_error)
qed

lemma construct_ellipse_lengths:
  assumes "determine_optimal_crs lib (anchor_point lib (centroid e)) = Inr optimal_crs"
    and "to_meter_magnitude (semi_major e) = Inr major_meters"
    and "to_meter_magnitude (semi_minor e) = Inr minor_meters"
  shows "[case construct_ellipse lib e n of Inr p \<Rightarrow> p] =
     [let to_transformer = \<lparr>crs_from = WGS84_geographic, crs_to = optimal_crs,
                                 always_xy = True\<rparr>;
               return_transformer = \<lparr>crs_from = optimal_crs, crs_to = WGS84_geographic,
                                     always_xy = True\<rparr>;
               scaled = scale_geom
                          (buffer lib (transform (proj lib to_transformer) (centroid e)) 1 n)
                          major_meters minor_meters
           in transform (proj lib return_transformer)
                (if orientation e = 0 then scaled else rotate_geom scaled (orientation e))]
     \<and> (\<exists>p. construct_ellipse lib e n = Inr p)"
  using assms
  by (simp add: construct_ellipse_def OptimalReprojector_init_default apply_geometry_def
        get_optimal_transformers_default generate_utm_ellipse_def Let_def
        DEFAULT_ELLIPSE_ORIENTATION_def)

lemma generate_ellipse_result:
  "generate_ellipse lib n cache (objs, e) =
     (case construct_ellipse lib e n of
        Inl err \<Rightarrow> (Inl err, (objs, e))
      | Inr p \<Rightarrow> (Inr (length objs),
                  (objs @ [p], if cache then e\<lparr>priv_ellipse := Some (length objs)\<rparr> else e)))"
  by (simp add: generate_ellipse_def)

lemma generate_ellipse_lengths:
  assumes "determine_optimal_crs lib (anchor_point lib (centroid e)) = Inr optimal_crs"
    and "to_meter_magnitude (semi_major e) = Inr major_meters"
    and "to_meter_magnitude (semi_minor e) = Inr minor_meters"
  shows "generate_ellipse lib n cache (objs, e) =
        (Inr (length objs),
         (objs @
          [let to_transformer = \<lparr>crs_from = WGS84_geographic, crs_to = optimal_crs,
                                 always_xy = True\<rparr>;
               return_transformer = \<lparr>crs_from = optimal_crs, crs_to = WGS84_geographic,
                                     always_xy = True\<rparr>;
               scaled = scale_geom
                          (buffer lib (transform (proj lib to_transformer) (centroid e)) 1 n)
                          major_meters minor_meters
           in transform (proj lib return_transformer)
                (if orientation e = 0 then scaled else rotate_geom scaled (orientation e))],
          if cache then e\<lparr>priv_ellipse := Some (length objs)\<rparr> else e))"
proof -
  from construct_ellipse_lengths [OF assms, of n]
  obtain p where p: "construct_ellipse lib e n = Inr p" and q: "[p] =
     [let to_transformer = \<lparr>crs_from = WGS84_geographic, crs_to = optimal_crs,
                                 always_xy = True\<rparr>;
               return_transformer = \<lparr>crs_from = optimal_crs, crs_to = WGS84_geographic,
                                     always_xy = True\<rparr>;
               scaled = scale_geom
                          (buffer lib (transform (proj lib to_transformer) (centroid e)) 1 n)
                          major_meters minor_meters
           in transform (proj lib return_transformer)
                (if orientation e = 0 then scaled else rotate_geom scaled (orientation e))]"
    by auto
  show ?thesis
    by (simp only: generate_ellipse_result p sum.case q [symmetric])
qed

lemma test_ellipse_frame:
  "determine_optimal_crs example_lib
     (anchor_point example_lib (centroid (test_ellipse\<lparr>semi_major := a\<rparr>))) =
     Inr (WGS84_utm_north 16)"
  by (simp add: test_ellipse_def anchor_point_def determine_optimal_crs_def utm_zone_atlanta
        utm_crs_def)

lemma test_ellipse_constructs:
  "\<exists>p. construct_ellipse example_lib (test_ellipse\<lparr>semi_major := Quantity m nautical_mile\<rparr>) n =
        Inr p"
  using construct_ellipse_lengths [OF test_ellipse_frame,
          where major_meters = "m * 1852" and minor_meters = 1852]
  by (simp add: test_ellipse_def nautical_mile_def)

text \<open>
  C3, amended. \<open>generate_ellipse\<close> validates nothing and never ends with
  \<open>InvalidParameterError\<close>. Where it can succeed at all, that is for a centroid whose optimal
  frame is built and semi-axes that are length quantities, it returns a new polygon for every
  resolution (zero and negative ones included) and all magnitudes (negative ones included):
  the resolution goes to the library's buffer and the magnitudes in meters go to the scaling
  as they are.
\<close>

theorem generate_ellipse_no_validation:
  "fst (generate_ellipse lib n cache (objs, e)) \<noteq> Inl InvalidParameterError
   \<and> (determine_optimal_crs lib (anchor_point lib (centroid e)) = Inr optimal_crs
        \<and> to_meter_magnitude (semi_major e) = Inr major_meters
        \<and> to_meter_magnitude (semi_minor e) = Inr minor_meters \<longrightarrow>
      generate_ellipse lib n cache (objs, e) =
        (Inr (length objs),
         (objs @
          [let to_transformer = \<lparr>crs_from = WGS84_geographic, crs_to = optimal_crs,
                                 always_xy = True\<rparr>;
               return_transformer = \<lparr>crs_from = optimal_crs, crs_to = WGS84_geographic,
                                     always_xy = True\<rparr>;
               scaled = scale_geom
                          (buffer lib (transform (proj lib to_transformer) (centroid e)) 1 n)
                          major_meters minor_meters
           in transform (proj lib return_transformer)
                (if orientation e = 0 then scaled else rotate_geom scaled (orientation e))],
          if cache then e\<lparr>priv_ellipse := Some (length objs)\<rparr> else e)))"
proof (intro conjI impI)
  show "fst (generate_ellipse lib n cache (objs, e)) \<noteq> Inl InvalidParameterError"
    by (auto simp add: generate_ellipse_result split: sum.splits dest: construct_ellipse_error)
next
  assume "determine_optimal_crs lib (anchor_point lib (centroid e)) = Inr optimal_crs
        \<and> to_meter_magnitude (semi_major e) = Inr major_meters
        \<and> to_meter_magnitude (semi_minor e) = Inr minor_meters"
  then show "generate_ellipse lib n cache (objs, e) =
        (Inr (length objs),
         (objs @
          [let to_transformer = \<lparr>crs_from = WGS84_geographic, crs_to = optimal_crs,
                                 always_xy = True\<rparr>;
               return_transformer = \<lparr>crs_from = optimal_crs, crs_to = WGS84_geographic,
                                     always_xy = True\<rparr>;
               scaled = scale_geom
                          (buffer lib (transform (proj lib to_transformer) (centroid e)) 1 n)
                          major_meters minor_meters
           in transform (proj lib return_transformer)
                (if orientation e = 0 then scaled else rotate_geom scaled (orientation e))],
          if cache then e\<lparr>priv_ellipse := Some (length objs)\<rparr> else e))"
    by (simp only: generate_ellipse_lengths)
qed

theorem generate_ellipse_no_validation_witness:
  "fst (generate_ellipse example_lib (- 3) False
          ([], test_ellipse\<lparr>semi_major := Quantity (- 1) nautical_mile\<rparr>)) = Inr 0"
  using generate_ellipse_no_validation [of example_lib "- 3" False "[]"
          "test_ellipse\<lparr>semi_major := Quantity (- 1) nautical_mile\<rparr>" "WGS84_utm_north 16"
          "- 1852" 1852]
        test_ellipse_frame [of "Quantity (- 1) nautical_mile"]
  by (simp add: test_ellipse_def nautical_mile_def)

text \<open>
  C3, as worded. With resolution 0, and with \<open>semi_major\<close> of -1 nautical mile, the ellipse of
  the test suite is generated all the same: the call returns the reference of a new polygon
  and the store holds one object afterwards.
\<close>

theorem invalid_parameter_counterexample:
  "fst (generate_ellipse example_lib 0 False ([], test_ellipse)) = Inr 0
   \<and> length (fst (snd (generate_ellipse example_lib 0 False ([], test_ellipse)))) = 1
   \<and> fst (generate_ellipse example_lib 8 False
            ([], test_ellipse\<lparr>semi_major := Quantity (- 1) nautical_mile\<rparr>)) = Inr 0
   \<and> length (fst (snd (generate_ellipse example_lib 8 False
            ([], test_ellipse\<lparr>semi_major := Quantity (- 1) nautical_mile\<rparr>)))) = 1
   \<and> fst (generate_ellipse example_lib 0 False ([], test_ellipse)) \<noteq> Inl InvalidParameterError
   \<and> fst (generate_ellipse example_lib 8 False
            ([], test_ellipse\<lparr>semi_major := Quantity (- 1) nautical_mile\<rparr>)) \<noteq>
       Inl InvalidParameterError"
proof -
  obtain p where p: "construct_ellipse example_lib test_ellipse 0 = Inr p"
    using test_ellipse_constructs [of 2 0] by (auto simp add: test_ellipse_def)
  obtain q where q: "construct_ellipse example_lib
                       (test_ellipse\<lparr>semi_major := Quantity (- 1) nautical_mile\<rparr>) 8 = Inr q"
    using test_ellipse_constructs [of "- 1" 8] by auto
  show ?thesis
    by (simp add: generate_ellipse_result p q)
qed

section \<open>The cached polygon\<close>

lemma ellipse_populated:
  "priv_ellipse e = Some k \<Longrightarrow> ellipse lib (objs, e) = (Inr (Some k), (objs, e))"
  by (simp add: ellipse_def)

lemma ellipse_empty:
  "priv_ellipse e = None \<Longrightarrow>
   ellipse lib (objs, e) =
     (case construct_ellipse lib e 8 of
        Inl err \<Rightarrow> (Inl err, (objs, e))
      | Inr p \<Rightarrow> (Inr (Some (length objs)),
                  (objs @ [p], e\<lparr>priv_ellipse := Some (length objs)\<rparr>)))"
  by (simp add: ellipse_def generate_ellipse_result DEFAULT_ELLIPSE_RESOLUTION_def
        split: sum.splits)

lemma ellipse_returns_slot:
  assumes "ellipse lib s = (Inr r, s1)"
  shows "r \<noteq> None \<and> priv_ellipse (snd s1) = r"
proof (cases s)
  case (Pair objs e)
  show ?thesis
  proof (cases "priv_ellipse e")
    case None
    with assms Pair show ?thesis
      by (auto simp add: ellipse_empty split: sum.splits)
  next
    case (Some k)
    with assms Pair have "r = Some k" and "s1 = (objs, e)"
      by (simp_all add: ellipse_populated)
    with Some show ?thesis by simp
  qed
qed

lemma generate_ellipse_uncached_slot:
  "priv_ellipse (snd (snd (generate_ellipse lib n False s))) = priv_ellipse (snd s)"
  by (cases s) (simp add: generate_ellipse_result split: sum.splits)

lemma construct_ellipse_slot:
  "construct_ellipse lib (e\<lparr>priv_ellipse := v\<rparr>) n = construct_ellipse lib e n"
  by (simp add: construct_ellipse_def OptimalReprojector_init_default)

text \<open>
  C4. When an access to the property \<open>ellipse\<close> returns, it returns the reference held in
  \<open>_ellipse\<close>; the next access returns that identical reference and changes neither the store
  nor the ellipse (nothing is computed again), also when a \<open>generate_ellipse\<close> with
  \<open>cache=False\<close> runs in between. A first access on an empty slot runs the construction on
  the fields of the ellipse with resolution 8, stores the reference of the new polygon in
  \<open>_ellipse\<close> and returns it.
\<close>

theorem ellipse_cached_identity:
  "(ellipse lib s = (Inr r, s1) \<longrightarrow>
      r \<noteq> None \<and> priv_ellipse (snd s1) = r
      \<and> ellipse lib s1 = (Inr r, s1)
      \<and> ellipse lib (snd (generate_ellipse lib n False s1)) =
          (Inr r, snd (generate_ellipse lib n False s1)))
   \<and> (priv_ellipse e = None \<longrightarrow>
      ellipse lib (objs, e) =
        (case construct_ellipse lib e 8 of
           Inl err \<Rightarrow> (Inl err, (objs, e))
         | Inr p \<Rightarrow> (Inr (Some (length objs)),
                     (objs @ [p], e\<lparr>priv_ellipse := Some (length objs)\<rparr>))))"
proof (intro conjI impI)
  assume a: "ellipse lib s = (Inr r, s1)"
  from ellipse_returns_slot [OF a] obtain k where k: "r = Some k" "priv_ellipse (snd s1) = Some k"
    by auto
  show "r \<noteq> None" using k by simp
  show "priv_ellipse (snd s1) = r" using k by simp
  show "ellipse lib s1 = (Inr r, s1)"
    using k ellipse_populated [of "snd s1" k lib "fst s1"] by simp
  have "priv_ellipse (snd (snd (generate_ellipse lib n False s1))) = Some k"
    using k by (simp add: generate_ellipse_uncached_slot)
  then show "ellipse lib (snd (generate_ellipse lib n False s1)) =
          (Inr r, snd (generate_ellipse lib n False s1))"
    using k ellipse_populated [of "snd (snd (generate_ellipse lib n False s1))" k lib
        "fst (snd (generate_ellipse lib n False s1))"] by simp
next
  assume "priv_ellipse e = None"
  then show "ellipse lib (objs, e) =
        (case construct_ellipse lib e 8 of
           Inl err \<Rightarrow> (Inl err, (objs, e))
         | Inr p \<Rightarrow> (Inr (Some (length objs)),
                     (objs @ [p], e\<lparr>priv_ellipse := Some (length objs)\<rparr>)))"
    by (rule ellipse_empty)
qed

lemma test_ellipse_first_access:
  "fst (ellipse example_lib ([], test_ellipse)) = Inr (Some 0)"
proof -
  obtain p where p: "construct_ellipse example_lib test_ellipse 8 = Inr p"
    using test_ellipse_constructs [of 2 8] by (auto simp add: test_ellipse_def)
  have "priv_ellipse test_ellipse = None" by (simp add: test_ellipse_def)
  then show ?thesis by (simp add: ellipse_empty p)
qed

theorem ellipse_cached_identity_witness:
  "fst (ellipse example_lib ([], test_ellipse)) = Inr (Some 0)
   \<and> fst (ellipse example_lib (snd (ellipse example_lib ([], test_ellipse)))) = Inr (Some 0)
   \<and> fst (ellipse example_lib
            (snd (generate_ellipse example_lib 3 False
                    (snd (ellipse example_lib ([], test_ellipse)))))) = Inr (Some 0)
   \<and> priv_ellipse test_ellipse = None"
proof -
  let ?s1 = "snd (ellipse example_lib ([], test_ellipse))"
  let ?s2 = "snd (generate_ellipse example_lib 3 False ?s1)"
  have a: "ellipse example_lib ([], test_ellipse) = (Inr (Some 0), ?s1)"
    using test_ellipse_first_access by (simp add: prod_eq_iff)
  have b: "priv_ellipse test_ellipse = None" by (simp add: test_ellipse_def)
  have c: "ellipse example_lib ?s1 = (Inr (Some 0), ?s1)
           \<and> ellipse example_lib ?s2 = (Inr (Some 0), ?s2)"
    using ellipse_cached_identity [of example_lib "([], test_ellipse)" "Some 0" ?s1 3]
      a by blast
  from c have c1: "fst (ellipse example_lib ?s1) = Inr (Some 0)"
    by (metis fst_conv)
  from c have c2: "fst (ellipse example_lib ?s2) = Inr (Some 0)"
    by (metis fst_conv)
  show ?thesis using test_ellipse_first_access c1 c2 b by blast
qed

section \<open>Regeneration\<close>

lemma cache_valid_new: "priv_ellipse e = None \<Longrightarrow> cache_valid (objs, e)"
  by (simp add: cache_valid_def)

lemma cache_valid_generate_ellipse:
  "cache_valid s \<Longrightarrow> cache_valid (snd (generate_ellipse lib n cache s))"
  by (cases s) (auto simp add: cache_valid_def generate_ellipse_result
        split: sum.splits option.splits)

lemma cache_valid_ellipse: "cache_valid s \<Longrightarrow> cache_valid (snd (ellipse lib s))"
  by (cases s; cases "priv_ellipse (snd s)")
     (auto simp add: cache_valid_def ellipse_empty ellipse_populated split: sum.splits)

lemma deref_append: "r < length objs \<Longrightarrow> deref (objs @ extra) r = deref objs r"
  by (simp add: deref_def nth_append)

lemma deref_fresh: "deref (objs @ [p]) (length objs) = Some p \<and> deref objs (length objs) = None"
  by (simp add: deref_def)

lemma returned_polygon_uncached:
  assumes "cache_valid s"
  shows "returned_polygon (ellipse lib (snd (generate_ellipse lib n False s))) =
         returned_polygon (ellipse lib s)"
proof (cases s)
  case (Pair objs e)
  show ?thesis
  proof (cases "priv_ellipse e")
    case None
    then show ?thesis
      using Pair
      by (simp add: generate_ellipse_result ellipse_empty returned_polygon_def deref_def
          nth_append split: sum.splits)
  next
    case (Some k)
    then have "k < length objs" using assms Pair by (simp add: cache_valid_def)
    then show ?thesis
      using Pair Some
      by (simp add: generate_ellipse_result ellipse_populated returned_polygon_def
          deref_append split: sum.splits)
  qed
qed

lemma ellipse_reference_uncached:
  assumes "priv_ellipse (snd s) \<noteq> None"
  shows "fst (ellipse lib (snd (generate_ellipse lib n False s))) = fst (ellipse lib s)"
proof -
  from assms obtain k where k: "priv_ellipse (snd s) = Some k" by auto
  then have "priv_ellipse (snd (snd (generate_ellipse lib n False s))) = Some k"
    by (simp add: generate_ellipse_uncached_slot)
  then have "fst (ellipse lib (snd (generate_ellipse lib n False s))) = Inr (Some k)"
    by (simp add: ellipse_def)
  moreover have "fst (ellipse lib s) = Inr (Some k)"
    using k by (simp add: ellipse_def)
  ultimately show ?thesis by simp
qed

text \<open>
  C5. For an ellipse whose construction can succeed (the optimal frame of the centroid is
  built, the semi-axes are length quantities) \<open>generate_ellipse\<close> returns, for every resolution
  and either value of \<open>cache\<close>, the reference of a polygon that was not in the store before
  and that is the outcome of the construction for that resolution. With \<open>cache=True\<close> the slot
  \<open>_ellipse\<close> holds that reference afterwards and the property \<open>ellipse\<close> returns it; with
  \<open>cache=False\<close> the slot is as before. A generation with \<open>cache=False\<close> changes nothing
  about what a following access to \<open>ellipse\<close> returns: the same polygon, and the same
  reference when the slot was filled.
\<close>

theorem generate_ellipse_persist:
  "(determine_optimal_crs lib (anchor_point lib (centroid e)) = Inr optimal_crs
      \<and> to_meter_magnitude (semi_major e) = Inr major_meters
      \<and> to_meter_magnitude (semi_minor e) = Inr minor_meters \<longrightarrow>
      generate_ellipse lib n cache (objs, e) =
        (Inr (length objs),
         (objs @
          [let to_transformer = \<lparr>crs_from = WGS84_geographic, crs_to = optimal_crs,
                                 always_xy = True\<rparr>;
               return_transformer = \<lparr>crs_from = optimal_crs, crs_to = WGS84_geographic,
                                     always_xy = True\<rparr>;
               scaled = scale_geom
                          (buffer lib (transform (proj lib to_transformer) (centroid e)) 1 n)
                          major_meters minor_meters
           in transform (proj lib return_transformer)
                (if orientation e = 0 then scaled else rotate_geom scaled (orientation e))],
          if cache then e\<lparr>priv_ellipse := Some (length objs)\<rparr> else e))
      \<and> construct_ellipse lib e n =
          Inr (fst (snd (generate_ellipse lib n cache (objs, e))) ! length objs)
      \<and> deref objs (length objs) = None
      \<and> deref (fst (snd (generate_ellipse lib n cache (objs, e)))) (length objs) \<noteq> None)
   \<and> (generate_ellipse lib n cache (objs, e) = (Inr r, (objs', e')) \<longrightarrow>
      deref objs r = None
      \<and> construct_ellipse lib e n = Inr (objs' ! r) \<and> deref objs' r = Some (objs' ! r)
      \<and> (cache \<longrightarrow> priv_ellipse e' = Some r
                  \<and> ellipse lib (objs', e') = (Inr (Some r), (objs', e')))
      \<and> (\<not> cache \<longrightarrow> priv_ellipse e' = priv_ellipse e))
   \<and> priv_ellipse (snd (snd (generate_ellipse lib n False s))) = priv_ellipse (snd s)
   \<and> (cache_valid s \<longrightarrow>
        returned_polygon (ellipse lib (snd (generate_ellipse lib n False s))) =
        returned_polygon (ellipse lib s))
   \<and> (priv_ellipse (snd s) \<noteq> None \<longrightarrow>
        fst (ellipse lib (snd (generate_ellipse lib n False s))) = fst (ellipse lib s))"
proof (intro conjI impI)
  assume h: "determine_optimal_crs lib (anchor_point lib (centroid e)) = Inr optimal_crs
      \<and> to_meter_magnitude (semi_major e) = Inr major_meters
      \<and> to_meter_magnitude (semi_minor e) = Inr minor_meters"
  then show g: "generate_ellipse lib n cache (objs, e) =
        (Inr (length objs),
         (objs @
          [let to_transformer = \<lparr>crs_from = WGS84_geographic, crs_to = optimal_crs,
                                 always_xy = True\<rparr>;
               return_transformer = \<lparr>crs_from = optimal_crs, crs_to = WGS84_geographic,
                                     always_xy = True\<rparr>;
               scaled = scale_geom
                          (buffer lib (transform (proj lib to_transformer) (centroid e)) 1 n)
                          major_meters minor_meters
           in transform (proj lib return_transformer)
                (if orientation e = 0 then scaled else rotate_geom scaled (orientation e))],
          if cache then e\<lparr>priv_ellipse := Some (length objs)\<rparr> else e))"
    by (simp only: generate_ellipse_lengths)
  from h obtain p where p: "construct_ellipse lib e n = Inr p"
    using construct_ellipse_lengths [of lib e optimal_crs major_meters minor_meters n] by auto
  show "construct_ellipse lib e n =
          Inr (fst (snd (generate_ellipse lib n cache (objs, e))) ! length objs)"
    by (simp add: generate_ellipse_result p)
  show "deref objs (length objs) = None" by (simp add: deref_def)
  show "deref (fst (snd (generate_ellipse lib n cache (objs, e)))) (length objs) \<noteq> None"
    by (simp add: generate_ellipse_result p deref_def)
next
  assume a: "generate_ellipse lib n cache (objs, e) = (Inr r, (objs', e'))"
  then obtain p where p: "construct_ellipse lib e n = Inr p" "r = length objs"
      "objs' = objs @ [p]" "e' = (if cache then e\<lparr>priv_ellipse := Some (length objs)\<rparr> else e)"
    by (auto simp add: generate_ellipse_result split: sum.splits)
  show "deref objs r = None" using p by (simp add: deref_def)
  show "construct_ellipse lib e n = Inr (objs' ! r)" using p by simp
  show "deref objs' r = Some (objs' ! r)" using p by (simp add: deref_def)
  {
    assume c: cache
    then show "priv_ellipse e' = Some r" using p by simp
    then show "ellipse lib (objs', e') = (Inr (Some r), (objs', e'))"
      by (simp add: ellipse_populated)
  }
  {
    assume "\<not> cache"
    then show "priv_ellipse e' = priv_ellipse e" using p by simp
  }
next
  show "priv_ellipse (snd (snd (generate_ellipse lib n False s))) = priv_ellipse (snd s)"
    by (rule generate_ellipse_uncached_slot)
next
  assume "cache_valid s"
  then show "returned_polygon (ellipse lib (snd (generate_ellipse lib n False s))) =
        returned_polygon (ellipse lib s)"
    by (rule returned_polygon_uncached)
next
  assume "priv_ellipse (snd s) \<noteq> None"
  then show "fst (ellipse lib (snd (generate_ellipse lib n False s))) = fst (ellipse lib s)"
    by (rule ellipse_reference_uncached)
qed

lemma test_ellipse_axes:
  "to_meter_magnitude (semi_major test_ellipse) = Inr 3704
   \<and> to_meter_magnitude (semi_minor test_ellipse) = Inr 1852"
  by (simp add: test_ellipse_def nautical_mile_def)

lemma test_ellipse_frame_plain:
  "determine_optimal_crs example_lib (anchor_point example_lib (centroid test_ellipse)) =
     Inr (WGS84_utm_north 16)"
  by (simp add: test_ellipse_def anchor_point_def determine_optimal_crs_def utm_zone_atlanta
        utm_crs_def)

theorem generate_ellipse_persist_witness:
  "fst (generate_ellipse example_lib 3 True ([], test_ellipse)) = Inr 0
   \<and> fst (generate_ellipse example_lib 3 False ([], test_ellipse)) = Inr 0
   \<and> construct_ellipse example_lib test_ellipse 3 =
       Inr (fst (snd (generate_ellipse example_lib 3 True ([], test_ellipse))) ! 0)
   \<and> deref (fst (snd (generate_ellipse example_lib 3 True ([], test_ellipse)))) 0 \<noteq> None
   \<and> priv_ellipse (snd (snd (generate_ellipse example_lib 3 True ([], test_ellipse)))) = Some 0
   \<and> priv_ellipse (snd (snd (generate_ellipse example_lib 3 False ([], test_ellipse)))) = None
   \<and> cache_valid ([], test_ellipse)
   \<and> returned_polygon
        (ellipse example_lib (snd (generate_ellipse example_lib 3 False ([], test_ellipse)))) =
       returned_polygon (ellipse example_lib ([], test_ellipse))
   \<and> priv_ellipse (snd (snd (ellipse example_lib ([], test_ellipse)))) \<noteq> None
   \<and> fst (ellipse example_lib
            (snd (generate_ellipse example_lib 3 False
                    (snd (ellipse example_lib ([], test_ellipse)))))) =
       fst (ellipse example_lib (snd (ellipse example_lib ([], test_ellipse))))"
proof -
  let ?s = "([], test_ellipse)"
  let ?t = "generate_ellipse example_lib 3 True ?s"
  let ?f = "generate_ellipse example_lib 3 False ?s"
  let ?s1 = "snd (ellipse example_lib ?s)"
  note T = generate_ellipse_persist [of example_lib test_ellipse "WGS84_utm_north 16" 3704 1852
      3 True "[]" 0 "fst (snd ?t)" "snd (snd ?t)" ?s]
  note F = generate_ellipse_persist [of example_lib test_ellipse "WGS84_utm_north 16" 3704 1852
      3 False "[]" 0 "fst (snd ?f)" "snd (snd ?f)" ?s]
  note P = generate_ellipse_persist [of example_lib test_ellipse "WGS84_utm_north 16" 3704 1852
      3 False "[]" 0 "fst (snd ?f)" "snd (snd ?f)" ?s1]
  have h: "determine_optimal_crs example_lib
             (anchor_point example_lib (centroid test_ellipse)) = Inr (WGS84_utm_north 16)
           \<and> to_meter_magnitude (semi_major test_ellipse) = Inr 3704
           \<and> to_meter_magnitude (semi_minor test_ellipse) = Inr 1852"
    using test_ellipse_frame_plain test_ellipse_axes by simp
  have "\<exists>X. ?t = (Inr (length ([]::geom list)), X)" using T h by blast
  then have t0: "fst ?t = Inr 0" by auto
  have "\<exists>X. ?f = (Inr (length ([]::geom list)), X)" using F h by blast
  then have f0: "fst ?f = Inr 0" by auto
  have "construct_ellipse example_lib test_ellipse 3 =
          Inr (fst (snd ?t) ! length ([]::geom list))"
    using T h by blast
  then have c: "construct_ellipse example_lib test_ellipse 3 = Inr (fst (snd ?t) ! 0)"
    by simp
  have "deref (fst (snd ?t)) (length ([]::geom list)) \<noteq> None" using T h by blast
  then have d: "deref (fst (snd ?t)) 0 \<noteq> None" by simp
  have t: "?t = (Inr 0, (fst (snd ?t), snd (snd ?t)))"
    using t0 by (simp add: prod_eq_iff)
  have f: "?f = (Inr 0, (fst (snd ?f), snd (snd ?f)))"
    using f0 by (simp add: prod_eq_iff)
  have n: "priv_ellipse test_ellipse = None" by (simp add: test_ellipse_def)
  have v: "cache_valid ?s" by (simp add: cache_valid_def test_ellipse_def)
  have e: "ellipse example_lib ?s = (Inr (Some 0), ?s1)"
    using test_ellipse_first_access by (simp add: prod_eq_iff)
  have p: "priv_ellipse (snd ?s1) \<noteq> None"
    using ellipse_returns_slot [OF e] by simp
  have 1: "priv_ellipse (snd (snd ?t)) = Some 0" using T t by blast
  have 2: "priv_ellipse (snd (snd ?f)) = None" using F f n by simp
  have 3: "returned_polygon (ellipse example_lib (snd ?f)) =
           returned_polygon (ellipse example_lib ?s)"
    using F v by blast
  have 4: "fst (ellipse example_lib (snd (generate_ellipse example_lib 3 False ?s1))) =
           fst (ellipse example_lib ?s1)"
    using P p by blast
  show ?thesis using t0 f0 c d 1 2 v 3 p 4 by blast
qed

section \<open>Fields that generation leaves alone\<close>

text \<open>
  C10. \<open>generate_ellipse\<close> leaves \<open>centroid\<close>, \<open>semi_major\<close>, \<open>semi_minor\<close> and \<open>orientation\<close>
  as they were. With \<open>cache=False\<close> the whole ellipse is as before; with \<open>cache=True\<close> the
  ellipse differs from the one before in the slot \<open>_ellipse\<close> at most.
\<close>

theorem generate_ellipse_fields:
  "centroid (snd (snd (generate_ellipse lib n cache s))) = centroid (snd s)
   \<and> semi_major (snd (snd (generate_ellipse lib n cache s))) = semi_major (snd s)
   \<and> semi_minor (snd (snd (generate_ellipse lib n cache s))) = semi_minor (snd s)
   \<and> orientation (snd (snd (generate_ellipse lib n cache s))) = orientation (snd s)
   \<and> snd (snd (generate_ellipse lib n False s)) = snd s
   \<and> snd (snd (generate_ellipse lib n True s)) =
       (snd s)\<lparr>priv_ellipse := priv_ellipse (snd (snd (generate_ellipse lib n True s)))\<rparr>"
  by (cases s) (simp add: generate_ellipse_result split: sum.splits)

end
